theory Spec2Isabelle
  imports Main "HOL-Library.AList" "HOL-Library.Char_ord" "HOL-Library.List_Lexorder"
begin

section \<open>The facade generator (\<open>_generate_init.py\<close>)\<close>

text \<open>
  The export table is the module global \<open>_LAZY_IMPORT_TABLE\<close>, a list of pairs of a
  submodule name and the tuple of symbol names it provides. The generator functions read
  that global; here they take it as their argument, so that statements about every table
  can be made. The table of the source is the constant \<open>LAZY_IMPORT_TABLE\<close>.
  Python strings are modelled as \<open>string\<close>; the names of the table are ASCII identifiers.
\<close>

type_synonym export_table = "(string \<times> string list) list"

definition LAZY_IMPORT_TABLE :: export_table where
  "LAZY_IMPORT_TABLE =
    [(''authorizers'',
        [''AccessTokenAuthorizer'', ''BasicAuthorizer'', ''ClientCredentialsAuthorizer'',
         ''NullAuthorizer'', ''RefreshTokenAuthorizer'']),
     (''client'', [''BaseClient'']),
     (''exc'',
        [''GlobusAPIError'', ''GlobusConnectionError'', ''GlobusConnectionTimeoutError'',
         ''GlobusError'', ''GlobusSDKUsageError'', ''GlobusTimeoutError'', ''NetworkError'']),
     (''local_endpoint'',
        [''GlobusConnectPersonalOwnerInfo'', ''LocalGlobusConnectPersonal'']),
     (''response'', [''GlobusHTTPResponse'']),
     (''services.auth'',
        [''AuthAPIError'', ''AuthClient'', ''ConfidentialAppAuthClient'', ''IdentityMap'',
         ''NativeAppAuthClient'', ''OAuthDependentTokenResponse'', ''OAuthTokenResponse'']),
     (''services.gcs'',
        [''CollectionDocument'', ''GCSAPIError'', ''GCSClient'', ''GCSRoleDocument'',
         ''GuestCollectionDocument'', ''MappedCollectionDocument'', ''CollectionPolicies'',
         ''POSIXCollectionPolicies'', ''POSIXStagingCollectionPolicies'',
         ''GoogleCloudStorageCollectionPolicies'', ''StorageGatewayDocument'',
         ''StorageGatewayPolicies'', ''POSIXStoragePolicies'', ''POSIXStagingStoragePolicies'',
         ''BlackPearlStoragePolicies'', ''BoxStoragePolicies'', ''CephStoragePolicies'',
         ''GoogleDriveStoragePolicies'', ''GoogleCloudStoragePolicies'',
         ''OneDriveStoragePolicies'', ''AzureBlobStoragePolicies'', ''S3StoragePolicies'',
         ''ActiveScaleStoragePolicies'', ''IrodsStoragePolicies'', ''HPSSStoragePolicies'',
         ''UserCredentialDocument'']),
     (''services.flows'',
        [''FlowsClient'', ''FlowsAPIError'', ''IterableFlowsResponse'', ''SpecificFlowClient'']),
     (''services.groups'',
        [''BatchMembershipActions'', ''GroupMemberVisibility'', ''GroupPolicies'',
         ''GroupRequiredSignupFields'', ''GroupRole'', ''GroupsAPIError'', ''GroupsClient'',
         ''GroupsManager'', ''GroupVisibility'']),
     (''services.search'',
        [''SearchAPIError'', ''SearchClient'', ''SearchQuery'', ''SearchScrollQuery'']),
     (''services.timer'', [''TimerAPIError'', ''TimerClient'', ''TimerJob'']),
     (''services.transfer'',
        [''ActivationRequirementsResponse'', ''DeleteData'', ''IterableTransferResponse'',
         ''TransferAPIError'', ''TransferClient'', ''TransferData''])]"

subsection \<open>Library functions the generator calls\<close>

text \<open>\<open>sep.join(pieces)\<close>.\<close>

fun join :: "string \<Rightarrow> string list \<Rightarrow> string" where
  "join sep [] = []"
| "join sep [x] = x"
| "join sep (x # y # ys) = x @ sep @ join sep (y # ys)"

text \<open>
  \<open>str.splitlines(keepends=True)\<close>, with the line feed as the only line boundary (the
  names of the source's table hold no line boundary at all). \<open>cur\<close> is the line read so far.
\<close>

fun splitlines_acc :: "string \<Rightarrow> string \<Rightarrow> string list" where
  "splitlines_acc cur [] = (if cur = [] then [] else [cur])"
| "splitlines_acc cur (c # cs) =
     (if c = CHR 0x0A then (cur @ [c]) # splitlines_acc [] cs
      else splitlines_acc (cur @ [c]) cs)"

definition splitlines_keepends :: "string \<Rightarrow> string list" where
  "splitlines_keepends s = splitlines_acc [] s"

text \<open>The ASCII characters that \<open>str.strip()\<close> removes.\<close>

definition is_space :: "char \<Rightarrow> bool" where
  "is_space c \<longleftrightarrow>
     c \<in> set [CHR 0x09, CHR 0x0A, CHR 0x0B, CHR 0x0C, CHR 0x0D,
                CHR 0x1C, CHR 0x1D, CHR 0x1E, CHR 0x1F, CHR 0x20]"

text \<open>
  \<open>textwrap.indent(text, prefix)\<close>: the prefix goes before every line that does not
  consist of whitespace only.
\<close>

definition indent :: "string \<Rightarrow> string \<Rightarrow> string" where
  "indent text prefix =
     concat (map (\<lambda>line. if list_all is_space line then line else prefix @ line)
                 (splitlines_keepends text))"

text \<open>
  \<open>sorted\<close> on strings compares code points lexicographically; that is the order of
  \<open>char list\<close> with the two library orders imported above, and \<open>sort\<close> is stable as
  \<open>sorted\<close> is.
\<close>

subsection \<open>The fixed pieces\<close>

definition unlines :: "string list \<Rightarrow> string" where
  "unlines ls = concat (map (\<lambda>l. l @ [CHR 0x0A]) ls)"

text \<open>\<open>pathlib.Path(__file__).name\<close> of the generator script.\<close>

definition script_name :: string where
  "script_name = ''_generate_init.py''"

definition FIXED_PREAMBLE :: string where
  \<open>FIXED_PREAMBLE = unlines
    [''# isort:skip_file'',
     ''# fmt:off'',
     ''#'',
     ''# this __init__.py file is generated by '' @ script_name,
     ''# do not edit it directly or testing will fail'',
     ''import importlib'',
     ''import logging'',
     ''import sys'',
     ''import typing'',
     [],
     ''from .version import __version__'',
     [],
     [],
     ''def _force_eager_imports() -> None:'',
     ''    current_module = sys.modules[__name__]'',
     [],
     ''    for attribute_set in _LAZY_IMPORT_TABLE.values():'',
     ''        for attr in attribute_set:'',
     ''            getattr(current_module, attr)'']\<close>

definition FIXED_EPILOG :: string where
  \<open>FIXED_EPILOG = unlines
    [[],
     ''# configure logging for a library, per python best practices:'',
     ''# https://docs.python.org/3/howto/logging.html#configuring-logging-for-a-library'',
     ''logging.getLogger("globus_sdk").addHandler(logging.NullHandler())'']\<close>

text \<open>The literal that \<open>_init_pieces\<close> yields between the import list and the export list.\<close>

definition HOOKS_BLOCK :: string where
  \<open>HOOKS_BLOCK = unlines
    [[],
     ''else:'',
     ''    def __dir__() -> typing.List[str]:'',
     ''        # dir(globus_sdk) should include everything exported in __all__'',
     ''        # as well as some explicitly selected attributes from the default dir() output'',
     ''        # on a module'',
     ''        #'',
     ''        # see also:'',
     ''        # https://discuss.python.org/t/how-to-properly-extend-standard-dir-search-with-module-level-dir/4202'',
     ''        return list(__all__) + ['',
     ''            # __all__ itself can be inspected'',
     ''            "__all__",'',
     ''            # useful to figure out where a package is installed'',
     ''            "__file__",'',
     ''            "__path__",'',
     ''        ]'',
     [],
     ''    def __getattr__(name: str) -> typing.Any:'',
     ''        for modname, items in _LAZY_IMPORT_TABLE.items():'',
     ''            if name in items:'',
     ''                mod = importlib.import_module("." + modname, __name__)'',
     ''                value = getattr(mod, name)'',
     ''                setattr(sys.modules[__name__], name, value)'',
     ''                return value'',
     [],
     ''        raise AttributeError(f"module {__name__} has no attribute {name}")'']\<close>

subsection \<open>The generator functions\<close>

text \<open>A Python generator is modelled by the list of what it yields, in order.\<close>

definition generate_imports :: "export_table \<Rightarrow> string list" where
  "generate_imports tbl =
     concat (map (\<lambda>(modname, items).
                    map (\<lambda>item. indent (''from .'' @ modname @ '' import '' @ item) ''    '') items)
                 tbl)"

definition generate_lazy_import_table :: "export_table \<Rightarrow> string list" where
  \<open>generate_lazy_import_table tbl =
     [''_LAZY_IMPORT_TABLE = {''] @
     concat (map (\<lambda>(modname, items).
                    [indent (''"'' @ modname @ ''": {'') (replicate 4 CHR '' '')] @
                    map (\<lambda>item. indent (''"'' @ item @ ''",'') (replicate 8 CHR '' '')) items @
                    [indent ''},'' (replicate 4 CHR '' '')])
                 tbl) @
     [''}'']\<close>

definition generate_all_tuple :: "export_table \<Rightarrow> string list" where
  \<open>generate_all_tuple tbl =
     [''__all__ = ('',
      ''    "__version__",'',
      ''    "_force_eager_imports",''] @
     map (\<lambda>item. ''    "'' @ item @ ''",'') (sort (concat (map snd tbl))) @
     ['')'']\<close>

definition init_pieces :: "export_table \<Rightarrow> string list" where
  \<open>init_pieces tbl =
     [FIXED_PREAMBLE, []] @
     generate_lazy_import_table tbl @
     [[], ''if typing.TYPE_CHECKING or sys.version_info < (3, 7):''] @
     generate_imports tbl @
     [HOOKS_BLOCK, []] @
     generate_all_tuple tbl @
     [[], FIXED_EPILOG]\<close>

definition generate_init :: "export_table \<Rightarrow> string" where
  "generate_init tbl = join [CHR 0x0A] (init_pieces tbl)"



section \<open>The generated module at run time\<close>

text \<open>
  The text that \<open>_init_pieces\<close> emits is itself a program: the preamble with
  \<open>_force_eager_imports\<close>, the table literal, the mode switch with the import list or the
  two hooks \<open>__dir__\<close> and \<open>__getattr__\<close>, and the export list. This section embeds that
  program. Its state is the attribute dictionary of the namespace module together with
  the part of the host that the hooks touch: \<open>sys.modules\<close>, and two logs that only the
  theorems read, one of the submodule bodies the host executed and one of the calls of
  \<open>__getattr__\<close>.
\<close>

datatype exn =
    AttributeError string
  | ImportError string
  | NameError string
  | TypeError string
  | Raised string

text \<open>
  The values an attribute can hold: an object of a submodule (\<open>Obj\<close>, opaque), a string,
  a tuple of strings (\<open>__all__\<close>), the dict of sets \<open>_LAZY_IMPORT_TABLE\<close> (in insertion
  order, each set in its iteration order), a module imported by name, and a function
  defined by the generated module, named by its \<open>def\<close>.
\<close>

datatype 'v pyval =
    Obj 'v
  | Str string
  | StrTuple "string list"
  | Table export_table
  | Module string
  | Function string

type_synonym 'v pymodule = "string \<rightharpoonup> 'v pyval"

record 'v state =
  dunder_name :: string
  attrs :: "string \<rightharpoonup> 'v pyval"
  sys_modules :: "string \<rightharpoonup> 'v pymodule"
  import_log :: "string list"
  hook_log :: "string list"

subsection \<open>The host: importing a submodule, reading an attribute\<close>

text \<open>
  The submodules are outside the program. A loader \<open>ld full k\<close> says what executing the
  body of the module \<open>full\<close> gives at its \<open>k\<close>-th execution (counting from 0): the
  exception it raises, or the module's attributes. \<open>importlib.import_module(rel, package)\<close>
  with \<open>rel\<close> a dot and a module path returns the module from \<open>sys.modules\<close> when it is
  there; otherwise it executes the body, and registers the module only when that
  succeeded. What the import system and the bodies of the submodules write elsewhere
  (the binding of a submodule object onto its parent package among them) is not part
  of this model.
\<close>

type_synonym 'v loader = "string \<Rightarrow> nat \<Rightarrow> exn + 'v pymodule"

definition import_module ::
  "'v loader \<Rightarrow> 'v state \<Rightarrow> string \<Rightarrow> string \<Rightarrow> (exn + 'v pymodule) \<times> 'v state" where
  "import_module ld st rel package =
     (let full = package @ rel in
      case sys_modules st full of
        Some m \<Rightarrow> (Inr m, st)
      | None \<Rightarrow>
          (case ld full (count_list (import_log st) full) of
             Inl e \<Rightarrow> (Inl e, st\<lparr>import_log := import_log st @ [full]\<rparr>)
           | Inr m \<Rightarrow>
               (Inr m, st\<lparr>sys_modules := (sys_modules st)(full \<mapsto> m),
                           import_log := import_log st @ [full]\<rparr>)))"

definition quoted :: "string \<Rightarrow> string" where
  "quoted s = [CHR 0x27] @ s @ [CHR 0x27]"

text \<open>\<open>getattr(mod, name)\<close> on a submodule whose \<open>__name__\<close> is \<open>full\<close>.\<close>

definition getattr_mod :: "string \<Rightarrow> 'v pymodule \<Rightarrow> string \<Rightarrow> exn + 'v pyval" where
  "getattr_mod full m name =
     (case m name of
        Some v \<Rightarrow> Inr v
      | None \<Rightarrow>
          Inl (AttributeError (''module '' @ quoted full @ '' has no attribute '' @ quoted name)))"

subsection \<open>The attribute-miss hook \<open>__getattr__\<close>\<close>

text \<open>
  The loop over \<open>_LAZY_IMPORT_TABLE.items()\<close>: the first entry whose set holds the name
  decides, and the \<open>raise\<close> after the loop is the empty list.
\<close>

fun getattr_scan ::
  "'v loader \<Rightarrow> 'v state \<Rightarrow> string \<Rightarrow> export_table \<Rightarrow> (exn + 'v pyval) \<times> 'v state" where
  "getattr_scan ld st name [] =
     (Inl (AttributeError (''module '' @ dunder_name st @ '' has no attribute '' @ name)), st)"
| "getattr_scan ld st name ((modname, items) # rest) =
     (if name \<in> set items then
        (case import_module ld st (''.'' @ modname) (dunder_name st) of
           (Inl e, st') \<Rightarrow> (Inl e, st')
         | (Inr m, st') \<Rightarrow>
             (case getattr_mod (dunder_name st @ ''.'' @ modname) m name of
                Inl e \<Rightarrow> (Inl e, st')
              | Inr v \<Rightarrow> (Inr v, st'\<lparr>attrs := (attrs st')(name \<mapsto> v)\<rparr>)))
      else getattr_scan ld st name rest)"

definition getattr_hook ::
  "'v loader \<Rightarrow> 'v state \<Rightarrow> string \<Rightarrow> (exn + 'v pyval) \<times> 'v state" where
  "getattr_hook ld st name =
     (let st1 = st\<lparr>hook_log := hook_log st @ [name]\<rparr> in
      case attrs st ''_LAZY_IMPORT_TABLE'' of
        Some (Table rt) \<Rightarrow> getattr_scan ld st1 name rt
      | Some _ \<Rightarrow> (Inl (AttributeError ''items''), st1)
      | None \<Rightarrow> (Inl (NameError ''_LAZY_IMPORT_TABLE''), st1))"

text \<open>
  An attribute read on the namespace module, \<open>getattr(current_module, attr)\<close>: the
  module's dictionary first, and on a miss the module's \<open>__getattr__\<close> when the module
  defines one.
\<close>

definition module_getattr ::
  "'v loader \<Rightarrow> 'v state \<Rightarrow> string \<Rightarrow> (exn + 'v pyval) \<times> 'v state" where
  "module_getattr ld st name =
     (case attrs st name of
        Some v \<Rightarrow> (Inr v, st)
      | None \<Rightarrow>
          (if attrs st ''__getattr__'' = Some (Function ''__getattr__'')
           then getattr_hook ld st name
           else (Inl (AttributeError
                   (''module '' @ quoted (dunder_name st) @ '' has no attribute '' @ quoted name)),
                 st)))"

subsection \<open>The enumeration hook \<open>__dir__\<close>\<close>

definition dir_hook :: "'v state \<Rightarrow> exn + string list" where
  "dir_hook st =
     (case attrs st ''__all__'' of
        Some (StrTuple names) \<Rightarrow> Inr (names @ [''__all__'', ''__file__'', ''__path__''])
      | Some _ \<Rightarrow> Inl (TypeError ''__all__'')
      | None \<Rightarrow> Inl (NameError ''__all__''))"

subsection \<open>The force-eager entry point \<open>_force_eager_imports\<close>\<close>

text \<open>
  The inner and the outer loop; an exception of a read ends both. \<open>current_module\<close> is
  the namespace itself, which the import system registers under \<open>__name__\<close> before the body
  of the module runs. The order in which a set is iterated is not fixed by Python: each
  list of the table below stands for one such order, and nothing proved about the loops
  depends on it.
\<close>

fun force_attrs :: "'v loader \<Rightarrow> 'v state \<Rightarrow> string list \<Rightarrow> (exn + unit) \<times> 'v state" where
  "force_attrs ld st [] = (Inr (), st)"
| "force_attrs ld st (attr # rest) =
     (case module_getattr ld st attr of
        (Inl e, st') \<Rightarrow> (Inl e, st')
      | (Inr _, st') \<Rightarrow> force_attrs ld st' rest)"

fun force_sets :: "'v loader \<Rightarrow> 'v state \<Rightarrow> string list list \<Rightarrow> (exn + unit) \<times> 'v state" where
  "force_sets ld st [] = (Inr (), st)"
| "force_sets ld st (attribute_set # rest) =
     (case force_attrs ld st attribute_set of
        (Inl e, st') \<Rightarrow> (Inl e, st')
      | (Inr _, st') \<Rightarrow> force_sets ld st' rest)"

definition force_eager_imports :: "'v loader \<Rightarrow> 'v state \<Rightarrow> (exn + unit) \<times> 'v state" where
  "force_eager_imports ld st =
     (case attrs st ''_LAZY_IMPORT_TABLE'' of
        Some (Table rt) \<Rightarrow> force_sets ld st (map snd rt)
      | Some _ \<Rightarrow> (Inl (AttributeError ''values''), st)
      | None \<Rightarrow> (Inl (NameError ''_LAZY_IMPORT_TABLE''), st))"

subsection \<open>Loading the generated module\<close>

text \<open>
  The context of a load: whether a static analyser reads the module
  (\<open>typing.TYPE_CHECKING\<close>), and the numeric components of \<open>sys.version_info\<close>. Tuples
  compare lexicographically, a proper prefix being smaller.
\<close>

record env =
  TYPE_CHECKING :: bool
  version_info :: "nat list"

fun tuple_lt :: "nat list \<Rightarrow> nat list \<Rightarrow> bool" where
  "tuple_lt [] [] = False"
| "tuple_lt [] (y # ys) = True"
| "tuple_lt (x # xs) [] = False"
| "tuple_lt (x # xs) (y # ys) = (x < y \<or> (x = y \<and> tuple_lt xs ys))"

definition eager_branch :: "env \<Rightarrow> bool" where
  "eager_branch e \<longleftrightarrow> TYPE_CHECKING e \<or> tuple_lt (version_info e) [3, 7]"

text \<open>
  The value of the literal that \<open>_generate_lazy_import_table\<close> emits: a dict display keeps
  the place of the first occurrence of a key and the value of its last, and a set
  display keeps one of each element.
\<close>

definition table_literal :: "export_table \<Rightarrow> export_table" where
  "table_literal tbl = fold (\<lambda>(modname, items). AList.update modname (remdups items)) tbl []"

text \<open>The value of the literal that \<open>_generate_all_tuple\<close> emits.\<close>

definition all_literal :: "export_table \<Rightarrow> string list" where
  "all_literal tbl = [''__version__'', ''_force_eager_imports''] @ sort (concat (map snd tbl))"

text \<open>
  \<open>from .modname import item\<close>: import the submodule, read the item, bind it in the
  namespace. (For an item the module does not hold, Python tries a submodule of that name
  before it raises; the host here has no such submodule.)
\<close>

definition from_import ::
  "'v loader \<Rightarrow> 'v state \<Rightarrow> string \<Rightarrow> string \<Rightarrow> (exn + unit) \<times> 'v state" where
  "from_import ld st modname item =
     (case import_module ld st (''.'' @ modname) (dunder_name st) of
        (Inl e, st') \<Rightarrow> (Inl e, st')
      | (Inr m, st') \<Rightarrow>
          (case m item of
             None \<Rightarrow> (Inl (ImportError (''cannot import name '' @ quoted item)), st')
           | Some v \<Rightarrow> (Inr (), st'\<lparr>attrs := (attrs st')(item \<mapsto> v)\<rparr>)))"

fun eager_imports ::
  "'v loader \<Rightarrow> 'v state \<Rightarrow> (string \<times> string) list \<Rightarrow> (exn + unit) \<times> 'v state" where
  "eager_imports ld st [] = (Inr (), st)"
| "eager_imports ld st ((modname, item) # rest) =
     (case from_import ld st modname item of
        (Inl e, st') \<Rightarrow> (Inl e, st')
      | (Inr _, st') \<Rightarrow> eager_imports ld st' rest)"

definition import_pairs :: "export_table \<Rightarrow> (string \<times> string) list" where
  "import_pairs tbl = concat (map (\<lambda>(modname, items). map (Pair modname) items) tbl)"

text \<open>A binding of a name in the namespace, by an assignment, a \<open>def\<close> or an \<open>import\<close>.\<close>

definition bind_name :: "string \<Rightarrow> 'v pyval \<Rightarrow> 'v state \<Rightarrow> 'v state" where
  "bind_name name v st = st\<lparr>attrs := (attrs st)(name \<mapsto> v)\<rparr>"

text \<open>
  The body of the generated module, statement by statement, run on the state in which
  the import system starts it. An exception ends the load.
\<close>

definition load_module ::
  "env \<Rightarrow> 'v loader \<Rightarrow> export_table \<Rightarrow> 'v state \<Rightarrow> (exn + unit) \<times> 'v state" where
  "load_module e ld tbl st =
     (let st1 = bind_name ''typing'' (Module ''typing'')
                 (bind_name ''sys'' (Module ''sys'')
                   (bind_name ''logging'' (Module ''logging'')
                     (bind_name ''importlib'' (Module ''importlib'') st))) in
      case from_import ld st1 ''version'' ''__version__'' of
        (Inl x, st2) \<Rightarrow> (Inl x, st2)
      | (Inr _, st2) \<Rightarrow>
          (let st3 = bind_name ''_LAZY_IMPORT_TABLE'' (Table (table_literal tbl))
                       (bind_name ''_force_eager_imports'' (Function ''_force_eager_imports'') st2) in
           case (if eager_branch e then eager_imports ld st3 (import_pairs tbl)
                 else (Inr (), bind_name ''__getattr__'' (Function ''__getattr__'')
                                 (bind_name ''__dir__'' (Function ''__dir__'') st3))) of
             (Inl x, st4) \<Rightarrow> (Inl x, st4)
           | (Inr _, st4) \<Rightarrow> (Inr (), bind_name ''__all__'' (StrTuple (all_literal tbl)) st4)))"

section \<open>Notions the properties are stated with\<close>

text \<open>All symbol names of a table, in table order and with repetitions.\<close>

definition symbols :: "export_table \<Rightarrow> string list" where
  "symbols tbl = concat (map snd tbl)"


text \<open>
  The symbol-uniqueness invariant of the data model, together with the requirement that
  no symbol of the table is one of the two fixed names of the export list.
\<close>

definition valid_table :: "export_table \<Rightarrow> bool" where
  "valid_table tbl \<longleftrightarrow>
     distinct (symbols tbl) \<and>
     ''__version__'' \<notin> set (symbols tbl) \<and> ''_force_eager_imports'' \<notin> set (symbols tbl)"

text \<open>The submodule that the scan of \<open>__getattr__\<close> finds for a name: the first that lists it.\<close>

fun owner :: "export_table \<Rightarrow> string \<Rightarrow> string option" where
  "owner [] name = None"
| "owner ((modname, items) # rest) name =
     (if name \<in> set items then Some modname else owner rest name)"

text \<open>A history of attribute reads on the namespace, whatever each of them returned.\<close>

fun run_reads :: "'v loader \<Rightarrow> 'v state \<Rightarrow> string list \<Rightarrow> 'v state" where
  "run_reads ld st [] = st"
| "run_reads ld st (name # rest) = run_reads ld (snd (module_getattr ld st name)) rest"


subsection \<open>Concrete inputs\<close>

text \<open>
  The scenario of the specification: \<open>mod_a\<close> provides \<open>Foo\<close>, \<open>mod_b\<close> provides \<open>Bar\<close>
  and \<open>Baz\<close>. In the host below the body of \<open>mod_a\<close> raises at its first execution and
  succeeds from the second on.
\<close>

definition example_table :: export_table where
  "example_table = [(''mod_a'', [''Foo'']), (''mod_b'', [''Bar'', ''Baz''])]"


definition example_loader :: "nat loader" where
  "example_loader full k =
     (if full = ''pkg.version'' then Inr (map_of [(''__version__'', Str ''3.0'')])
      else if full = ''pkg.mod_a'' then
        (if k = 0 then Inl (Raised ''boom'') else Inr (map_of [(''Foo'', Obj 1)]))
      else if full = ''pkg.mod_b'' then Inr (map_of [(''Bar'', Obj 2), (''Baz'', Obj 3)])
      else Inl (Raised ''ModuleNotFoundError''))"

definition example_start :: "nat state" where
  "example_start =
     \<lparr>dunder_name = ''pkg'',
      attrs = map_of [(''__name__'', Str ''pkg''), (''__file__'', Str ''pkg/__init__.py'')],
      sys_modules = Map.empty,
      import_log = [],
      hook_log = []\<rparr>"

definition example_env :: env where
  "example_env = \<lparr>TYPE_CHECKING = False, version_info = [3, 11, 2]\<rparr>"

definition old_env :: env where
  "old_env = \<lparr>TYPE_CHECKING = False, version_info = [3, 6, 9]\<rparr>"

text \<open>The namespace right after its load in normal mode.\<close>

definition example_loaded :: "nat state" where
  "example_loaded = snd (load_module example_env example_loader example_table example_start)"

text \<open>The same namespace after a first read of \<open>Foo\<close>, which failed in \<open>mod_a\<close>.\<close>

definition example_retry :: "nat state" where
  "example_retry =
     example_loaded\<lparr>hook_log := [''Foo''], import_log := [''pkg.version'', ''pkg.mod_a'']\<rparr>"

section \<open>Properties of the generator\<close>










text \<open>
  C8. The export list that \<open>_generate_all_tuple\<close> emits is the tuple literal of: the two
  fixed names \<open>__version__\<close> and \<open>_force_eager_imports\<close>, then the symbol names of all
  submodules of the table in sorted order. For a table that satisfies the uniqueness
  invariant (and lists neither fixed name as a symbol) the list has no duplicates.
\<close>

theorem C8_export_list:
  assumes "valid_table tbl"
  shows \<open>generate_all_tuple tbl =
           [''__all__ = (''] @ map (\<lambda>n. ''    "'' @ n @ ''",'') (all_literal tbl) @ ['')''] \<and>
         take 2 (all_literal tbl) = [''__version__'', ''_force_eager_imports''] \<and>
         sorted (drop 2 (all_literal tbl)) \<and>
         set (drop 2 (all_literal tbl)) = (\<Union>(m, items) \<in> set tbl. set items) \<and>
         distinct (all_literal tbl)\<close>
proof -
  have text_eq: \<open>generate_all_tuple tbl =
      [''__all__ = (''] @ map (\<lambda>n. ''    "'' @ n @ ''",'') (all_literal tbl) @ ['')'']\<close>
    by (simp add: generate_all_tuple_def all_literal_def)
  have fixed: "take 2 (all_literal tbl) = [''__version__'', ''_force_eager_imports'']"
    by (simp add: all_literal_def)
  have srt: "sorted (drop 2 (all_literal tbl))"
    by (simp add: all_literal_def)
  have union: "set (drop 2 (all_literal tbl)) = (\<Union>(m, items) \<in> set tbl. set items)"
    by (auto simp: all_literal_def)
  have dist: "distinct (all_literal tbl)"
    using assms by (auto simp: valid_table_def all_literal_def symbols_def)
  show ?thesis
    using text_eq fixed srt union dist by blast
qed

theorem C8_export_list_witness:
  "valid_table LAZY_IMPORT_TABLE \<and>
   sorted (drop 2 (all_literal LAZY_IMPORT_TABLE)) \<and>
   distinct (all_literal LAZY_IMPORT_TABLE)"
proof -
  have h: "valid_table LAZY_IMPORT_TABLE"
    by code_simp
  show ?thesis
    using h C8_export_list [OF h] by blast
qed

section \<open>Properties of the generated module\<close>

subsection \<open>The host import\<close>

lemma owner_None_iff: "owner rt n = None \<longleftrightarrow> n \<notin> set (symbols rt)"
  by (induction rt) (auto simp: symbols_def split: if_splits)

lemma import_module_attrs:
  "import_module ld st rel pkg = (r, st') \<Longrightarrow>
     attrs st' = attrs st \<and> dunder_name st' = dunder_name st \<and> hook_log st' = hook_log st"
  by (auto simp: import_module_def Let_def split: option.splits sum.splits)

lemma import_module_cached:
  "sys_modules st (pkg @ rel) = Some m \<Longrightarrow> import_module ld st rel pkg = (Inr m, st)"
  by (simp add: import_module_def)




subsection \<open>The scan, the hook and the attribute read\<close>

lemma getattr_scan_unknown:
  "owner rt n = None \<Longrightarrow>
     getattr_scan ld st n rt =
       (Inl (AttributeError (''module '' @ dunder_name st @ '' has no attribute '' @ n)), st)"
  by (induction rt) (auto split: if_splits)

lemma getattr_scan_owner:
  "owner rt n = Some M \<Longrightarrow>
     getattr_scan ld st n rt =
       (case import_module ld st (''.'' @ M) (dunder_name st) of
          (Inl e, st') \<Rightarrow> (Inl e, st')
        | (Inr m, st') \<Rightarrow>
            (case getattr_mod (dunder_name st @ ''.'' @ M) m n of
               Inl e \<Rightarrow> (Inl e, st')
             | Inr v \<Rightarrow> (Inr v, st'\<lparr>attrs := (attrs st')(n \<mapsto> v)\<rparr>)))"
  by (induction rt) (auto split: if_splits)

lemma getattr_scan_attrs:
  "getattr_scan ld st n rt = (r, st') \<Longrightarrow>
     attrs st' = (case r of Inl e \<Rightarrow> attrs st | Inr v \<Rightarrow> (attrs st)(n \<mapsto> v))"
proof (cases "owner rt n")
  case None
  assume "getattr_scan ld st n rt = (r, st')"
  with None show ?thesis by (auto simp: getattr_scan_unknown)
next
  case (Some M)
  assume "getattr_scan ld st n rt = (r, st')"
  with Some show ?thesis
    by (auto simp: getattr_scan_owner split: prod.splits sum.splits dest: import_module_attrs)
qed




lemma getattr_hook_attrs:
  "getattr_hook ld st n = (r, st') \<Longrightarrow>
     attrs st' = (case r of Inl e \<Rightarrow> attrs st | Inr v \<Rightarrow> (attrs st)(n \<mapsto> v))"
  by (cases r) (auto simp: getattr_hook_def Let_def split: option.splits pyval.splits
      dest!: getattr_scan_attrs)


lemma module_getattr_bound:
  "attrs st n = Some v \<Longrightarrow> module_getattr ld st n = (Inr v, st)"
  by (simp add: module_getattr_def)

lemma module_getattr_attrs:
  "module_getattr ld st n = (r, st') \<Longrightarrow>
     attrs st' = (case r of Inl e \<Rightarrow> attrs st | Inr v \<Rightarrow> (attrs st)(n \<mapsto> v))"
  by (cases r) (auto simp: module_getattr_def split: option.splits if_splits
      dest: getattr_hook_attrs)

lemma module_getattr_keeps:
  assumes "module_getattr ld st n = (r, st')" and "attrs st k = Some x"
  shows "attrs st' k = Some x"
proof (cases "attrs st n")
  case None
  then have "k \<noteq> n" using assms(2) by auto
  then show ?thesis
    using module_getattr_attrs [OF assms(1)] assms(2) by (cases r) auto
next
  case (Some v)
  then show ?thesis using assms by (simp add: module_getattr_bound)
qed

lemma module_getattr_result:
  "module_getattr ld st n = (Inr v, st') \<Longrightarrow> attrs st' n = Some v"
  by (drule module_getattr_attrs) simp


subsection \<open>The force-eager loops\<close>

lemma force_attrs_keeps:
  "force_attrs ld st as = (r, st') \<Longrightarrow> attrs st k = Some x \<Longrightarrow> attrs st' k = Some x"
proof (induction as arbitrary: st)
  case Nil
  then show ?case by simp
next
  case (Cons a as)
  obtain r1 st1 where step: "module_getattr ld st a = (r1, st1)"
    by (cases "module_getattr ld st a")
  then have "attrs st1 k = Some x"
    using Cons.prems(2) by (rule module_getattr_keeps)
  then show ?case
    using Cons.IH [of st1] Cons.prems(1) step by (cases r1) auto
qed

lemma force_attrs_bound:
  "force_attrs ld st as = (Inr u, st') \<Longrightarrow> a \<in> set as \<Longrightarrow> attrs st' a \<noteq> None"
proof (induction as arbitrary: st)
  case Nil
  then show ?case by simp
next
  case (Cons b as)
  obtain r1 st1 where step: "module_getattr ld st b = (r1, st1)"
    by (cases "module_getattr ld st b")
  with Cons.prems(1) obtain v where r1: "r1 = Inr v" and rest: "force_attrs ld st1 as = (Inr u, st')"
    by (cases r1) auto
  show ?case
  proof (cases "a = b")
    case True
    have "attrs st1 b = Some v" using step r1 by (auto dest: module_getattr_result)
    then show ?thesis using True force_attrs_keeps [OF rest] by auto
  next
    case False
    then show ?thesis using Cons.IH [OF rest] Cons.prems(2) by auto
  qed
qed

lemma force_attrs_noop:
  "\<forall>a \<in> set as. attrs st a \<noteq> None \<Longrightarrow> force_attrs ld st as = (Inr (), st)"
  by (induction as) (auto simp: module_getattr_bound)

lemma force_sets_keeps:
  "force_sets ld st sets = (r, st') \<Longrightarrow> attrs st k = Some x \<Longrightarrow> attrs st' k = Some x"
proof (induction sets arbitrary: st)
  case Nil
  then show ?case by simp
next
  case (Cons s sets)
  obtain r1 st1 where step: "force_attrs ld st s = (r1, st1)"
    by (cases "force_attrs ld st s")
  then have "attrs st1 k = Some x"
    using Cons.prems(2) by (rule force_attrs_keeps)
  then show ?case
    using Cons.IH [of st1] Cons.prems(1) step by (cases r1) auto
qed

lemma force_sets_bound:
  "force_sets ld st sets = (Inr u, st') \<Longrightarrow> s \<in> set sets \<Longrightarrow> a \<in> set s \<Longrightarrow>
     attrs st' a \<noteq> None"
proof (induction sets arbitrary: st)
  case Nil
  then show ?case by simp
next
  case (Cons t sets)
  obtain r1 st1 where step: "force_attrs ld st t = (r1, st1)"
    by (cases "force_attrs ld st t")
  with Cons.prems(1) obtain w where r1: "r1 = Inr w" and rest: "force_sets ld st1 sets = (Inr u, st')"
    by (cases r1) auto
  show ?case
  proof (cases "s = t")
    case True
    have "attrs st1 a \<noteq> None"
      using step r1 True Cons.prems(3) force_attrs_bound by blast
    then show ?thesis using force_sets_keeps [OF rest] by auto
  next
    case False
    then show ?thesis using Cons.IH [OF rest] Cons.prems(2,3) by auto
  qed
qed

lemma force_sets_noop:
  "\<forall>s \<in> set sets. \<forall>a \<in> set s. attrs st a \<noteq> None \<Longrightarrow> force_sets ld st sets = (Inr (), st)"
  by (induction sets) (auto simp: force_attrs_noop)

lemma force_eager_twice:
  assumes "force_eager_imports ld st = (Inr (), st1)"
  shows "force_eager_imports ld st1 = (Inr (), st1)"
proof -
  from assms obtain rt where tab: "attrs st ''_LAZY_IMPORT_TABLE'' = Some (Table rt)"
    and run: "force_sets ld st (map snd rt) = (Inr (), st1)"
    by (auto simp: force_eager_imports_def split: option.splits pyval.splits)
  have tab1: "attrs st1 ''_LAZY_IMPORT_TABLE'' = Some (Table rt)"
    using run tab by (rule force_sets_keeps)
  have "\<forall>s \<in> set (map snd rt). \<forall>a \<in> set s. attrs st1 a \<noteq> None"
    using force_sets_bound [OF run] by blast
  then have "force_sets ld st1 (map snd rt) = (Inr (), st1)"
    by (rule force_sets_noop)
  then show ?thesis
    using tab1 by (simp add: force_eager_imports_def)
qed

subsection \<open>The loaded example namespace\<close>

lemma example_loaded_facts:
  "fst (load_module example_env example_loader example_table example_start) = Inr ()"
  "dunder_name example_loaded = ''pkg''"
  "attrs example_loaded ''_LAZY_IMPORT_TABLE'' = Some (Table example_table)"
  "attrs example_loaded ''__getattr__'' = Some (Function ''__getattr__'')"
  "attrs example_loaded ''__all__'' = Some (StrTuple (all_literal example_table))"
  "attrs example_loaded ''__version__'' = Some (Str ''3.0'')"
  "attrs example_loaded ''Foo'' = None"
  "attrs example_loaded ''Bar'' = None"
  "attrs example_loaded ''Baz'' = None"
  "attrs example_loaded ''Qux'' = None"
  "sys_modules example_loaded ''pkg.mod_a'' = None"
  "sys_modules example_loaded ''pkg.mod_b'' = None"
  "import_log example_loaded = [''pkg.version'']"
  "hook_log example_loaded = []"
  by (simp_all add: example_loaded_def load_module_def from_import_def import_module_def
      bind_name_def example_env_def example_loader_def example_table_def example_start_def
      eager_branch_def table_literal_def all_literal_def Let_def)

subsection \<open>Attribute reads\<close>



text \<open>
  C3, as the code has it. A read of a name that no entry of the table lists and that is
  not bound on the namespace fails with an \<open>AttributeError\<close> whose message holds the
  name of the namespace module and the name read (the message of the hook where the hook
  is installed, the message of the module type otherwise); the attributes, \<open>sys.modules\<close>
  and the executed imports are as before.
\<close>

theorem C3_unknown_name:
  assumes "attrs st ''_LAZY_IMPORT_TABLE'' = Some (Table rt)"
    and "n \<notin> set (symbols rt)"
    and "attrs st n = None"
  shows "module_getattr ld st n =
     (if attrs st ''__getattr__'' = Some (Function ''__getattr__'')
      then (Inl (AttributeError (''module '' @ dunder_name st @ '' has no attribute '' @ n)),
            st\<lparr>hook_log := hook_log st @ [n]\<rparr>)
      else (Inl (AttributeError
                  (''module '' @ quoted (dunder_name st) @ '' has no attribute '' @ quoted n)),
            st)) \<and>
     attrs (snd (module_getattr ld st n)) = attrs st \<and>
     sys_modules (snd (module_getattr ld st n)) = sys_modules st \<and>
     import_log (snd (module_getattr ld st n)) = import_log st"
proof -
  have "owner rt n = None"
    using assms(2) by (simp add: owner_None_iff)
  then show ?thesis
    using assms(1,3)
    by (simp add: module_getattr_def getattr_hook_def getattr_scan_unknown Let_def)
qed

theorem C3_unknown_name_witness:
  "module_getattr example_loader example_loaded ''Qux'' =
     (Inl (AttributeError ''module pkg has no attribute Qux''),
      example_loaded\<lparr>hook_log := hook_log example_loaded @ [''Qux'']\<rparr>) \<and>
   attrs (snd (module_getattr example_loader example_loaded ''Qux'')) = attrs example_loaded"
proof -
  have "''Qux'' \<notin> set (symbols example_table)"
    by (simp add: symbols_def example_table_def)
  then show ?thesis
    using C3_unknown_name [of example_loaded example_table "''Qux''" example_loader]
    by (simp add: example_loaded_facts)
qed

text \<open>
  C3 as stated fails for a name that is bound on the namespace without
  being listed in the table: \<open>__version__\<close>, which the preamble imports, is read
  successfully.
\<close>

theorem C3_counterexample:
  "fst (load_module example_env example_loader example_table example_start) = Inr () \<and>
   attrs example_loaded ''_LAZY_IMPORT_TABLE'' = Some (Table example_table) \<and>
   ''__version__'' \<notin> set (symbols example_table) \<and>
   module_getattr example_loader example_loaded ''__version__'' = (Inr (Str ''3.0''), example_loaded)"
proof -
  have "''__version__'' \<notin> set (symbols example_table)"
    by (simp add: symbols_def example_table_def)
  then show ?thesis
    by (simp add: example_loaded_facts module_getattr_def)
qed

lemma example_owner:
  "owner example_table ''Foo'' = Some ''mod_a''"
  "owner example_table ''Bar'' = Some ''mod_b''"
  "owner example_table ''Baz'' = Some ''mod_b''"
  by (simp_all add: example_table_def)



lemma module_getattr_log_cached:
  assumes tab: "attrs st ''_LAZY_IMPORT_TABLE'' = Some (Table rt)"
    and own: "owner rt s = Some M"
    and loaded: "sys_modules st (dunder_name st @ ''.'' @ M) \<noteq> None"
    and run: "module_getattr ld st s = (r, st')"
  shows "import_log st' = import_log st"
proof (cases "attrs st s")
  case (Some v)
  then show ?thesis using run by (simp add: module_getattr_bound)
next
  case None
  from loaded obtain m where m: "sys_modules st (dunder_name st @ ''.'' @ M) = Some m"
    by auto
  show ?thesis
    using run None tab own m
    by (auto simp: module_getattr_def getattr_hook_def getattr_scan_owner import_module_def Let_def
        split: if_splits sum.splits)
qed

lemma module_getattr_first_import:
  assumes tab: "attrs st ''_LAZY_IMPORT_TABLE'' = Some (Table rt)"
    and own: "owner rt s = Some M"
    and unres: "attrs st s = None"
    and fresh: "sys_modules st (dunder_name st @ ''.'' @ M) = None"
    and run: "module_getattr ld st s = (Inr v, st')"
  shows "import_log st' = import_log st @ [dunder_name st @ ''.'' @ M] \<and>
         sys_modules st' (dunder_name st @ ''.'' @ M) \<noteq> None \<and>
         attrs st' = (attrs st)(s \<mapsto> v) \<and> dunder_name st' = dunder_name st"
  using assms
  by (auto simp: module_getattr_def getattr_hook_def getattr_scan_owner import_module_def Let_def
      split: if_splits sum.splits)

text \<open>
  C5. With \<open>sys.modules\<close> as the host's idempotent import: when a first symbol of a
  submodule that is not imported yet has been resolved, and a second, distinct symbol of
  the same submodule is read, the body of the submodule has been executed exactly once
  over the two reads. And when \<open>_force_eager_imports\<close> has returned, a second call
  returns as well and leaves the whole state as it was, so it executes no import and
  calls the hook not once.
\<close>

theorem C5_idempotent:
  "(attrs st ''_LAZY_IMPORT_TABLE'' = Some (Table rt) \<and> s1 \<noteq> s2 \<and>
    owner rt s1 = Some M \<and> owner rt s2 = Some M \<and> full = dunder_name st @ ''.'' @ M \<and>
    attrs st s1 = None \<and> sys_modules st full = None \<and>
    module_getattr ld st s1 = (Inr v1, st1) \<and> module_getattr ld st1 s2 = (r2, st2)
    \<longrightarrow> import_log st2 = import_log st @ [full] \<and>
        count_list (import_log st2) full = count_list (import_log st) full + 1) \<and>
   (force_eager_imports ld st = (Inr (), st') \<longrightarrow>
      force_eager_imports ld st' = (Inr (), st') \<and>
      import_log (snd (force_eager_imports ld st')) = import_log st' \<and>
      hook_log (snd (force_eager_imports ld st')) = hook_log st')"
proof (intro conjI impI)
  assume h: "attrs st ''_LAZY_IMPORT_TABLE'' = Some (Table rt) \<and> s1 \<noteq> s2 \<and>
    owner rt s1 = Some M \<and> owner rt s2 = Some M \<and> full = dunder_name st @ ''.'' @ M \<and>
    attrs st s1 = None \<and> sys_modules st full = None \<and>
    module_getattr ld st s1 = (Inr v1, st1) \<and> module_getattr ld st1 s2 = (r2, st2)"
  then have tab: "attrs st ''_LAZY_IMPORT_TABLE'' = Some (Table rt)"
    and own1: "owner rt s1 = Some M" and own2: "owner rt s2 = Some M"
    and full: "full = dunder_name st @ ''.'' @ M"
    and unres: "attrs st s1 = None"
    and run1: "module_getattr ld st s1 = (Inr v1, st1)"
    and run2: "module_getattr ld st1 s2 = (r2, st2)"
    by blast+
  from h have fresh: "sys_modules st (dunder_name st @ ''.'' @ M) = None"
    by blast
  note one = module_getattr_first_import [OF tab own1 unres fresh run1]
  have "s1 \<noteq> ''_LAZY_IMPORT_TABLE''"
    using tab unres by auto
  then have tab1: "attrs st1 ''_LAZY_IMPORT_TABLE'' = Some (Table rt)"
    using tab one by simp
  have loaded: "sys_modules st1 (dunder_name st1 @ ''.'' @ M) \<noteq> None"
    using one by simp
  have "import_log st2 = import_log st1"
    using tab1 own2 loaded run2 by (rule module_getattr_log_cached)
  then show "import_log st2 = import_log st @ [full]"
    using one full by simp
  then show "count_list (import_log st2) full = count_list (import_log st) full + 1"
    by simp
next
  assume "force_eager_imports ld st = (Inr (), st')"
  then have again: "force_eager_imports ld st' = (Inr (), st')"
    by (rule force_eager_twice)
  then show "force_eager_imports ld st' = (Inr (), st')"
    and "import_log (snd (force_eager_imports ld st')) = import_log st'"
    and "hook_log (snd (force_eager_imports ld st')) = hook_log st'"
    by simp_all
qed


theorem C5_idempotent_witness:
  "import_log (snd (module_getattr example_loader
                      (snd (module_getattr example_loader example_loaded ''Bar'')) ''Baz'')) =
     import_log example_loaded @ [''pkg.mod_b''] \<and>
   fst (force_eager_imports example_loader example_retry) = Inr () \<and>
   force_eager_imports example_loader (snd (force_eager_imports example_loader example_retry)) =
     (Inr (), snd (force_eager_imports example_loader example_retry))"
proof -
  have r1: "fst (module_getattr example_loader example_loaded ''Bar'') = Inr (Obj 2)"
    by (simp add: module_getattr_def getattr_hook_def example_loaded_facts example_table_def
        import_module_def example_loader_def getattr_mod_def Let_def)
  then have h1: "module_getattr example_loader example_loaded ''Bar'' =
      (Inr (Obj 2), snd (module_getattr example_loader example_loaded ''Bar''))"
    by (simp add: prod_eq_iff)
  have h2: "module_getattr example_loader (snd (module_getattr example_loader example_loaded ''Bar''))
        ''Baz'' =
      (fst (module_getattr example_loader
              (snd (module_getattr example_loader example_loaded ''Bar'')) ''Baz''),
       snd (module_getattr example_loader
              (snd (module_getattr example_loader example_loaded ''Bar'')) ''Baz''))"
    by simp
  have f: "fst (force_eager_imports example_loader example_retry) = Inr ()"
    by (simp add: force_eager_imports_def example_retry_def module_getattr_def getattr_hook_def
        example_loaded_facts example_table_def import_module_def example_loader_def
        getattr_mod_def Let_def)
  then have h3: "force_eager_imports example_loader example_retry =
      (Inr (), snd (force_eager_imports example_loader example_retry))"
    by (simp add: prod_eq_iff)
  show ?thesis
    using f h1 h2 h3 example_loaded_facts(2,3,8,12) example_owner(2,3)
      C5_idempotent [where st = example_loaded and rt = example_table and ?s1.0 = "''Bar''"
        and ?s2.0 = "''Baz''" and M = "''mod_b''" and full = "''pkg.mod_b''"
        and ld = example_loader and ?v1.0 = "Obj 2"
        and ?st1.0 = "snd (module_getattr example_loader example_loaded ''Bar'')"
        and ?r2.0 = "fst (module_getattr example_loader
              (snd (module_getattr example_loader example_loaded ''Bar'')) ''Baz'')"
        and ?st2.0 = "snd (module_getattr example_loader
              (snd (module_getattr example_loader example_loaded ''Bar'')) ''Baz'')"]
      C5_idempotent [where st = example_retry and ld = example_loader
        and st' = "snd (force_eager_imports example_loader example_retry)"]
    by simp
qed

subsection \<open>Enumeration\<close>

lemma run_reads_keeps:
  "attrs st k = Some x \<Longrightarrow> attrs (run_reads ld st names) k = Some x"
proof (induction names arbitrary: st)
  case Nil
  then show ?case by simp
next
  case (Cons n names)
  have "attrs (snd (module_getattr ld st n)) k = Some x"
    using Cons.prems module_getattr_keeps [of ld st n] by (cases "module_getattr ld st n") auto
  then show ?case using Cons.IH by simp
qed

lemma force_eager_keeps:
  "force_eager_imports ld st = (r, st') \<Longrightarrow> attrs st k = Some x \<Longrightarrow> attrs st' k = Some x"
  by (auto simp: force_eager_imports_def split: option.splits pyval.splits
      dest: force_sets_keeps)

lemma load_module_all:
  "load_module e ld tbl st0 = (Inr u, st) \<Longrightarrow> attrs st ''__all__'' = Some (StrTuple (all_literal tbl))"
  by (auto simp: load_module_def Let_def bind_name_def split: prod.splits sum.splits if_splits)

text \<open>
  C9. In the namespace as its load in normal mode leaves it, \<open>__dir__\<close> returns the export
  list (the two fixed names and the sorted symbols of the table) followed by \<open>__all__\<close>,
  \<open>__file__\<close> and \<open>__path__\<close>; and it returns the same after \<open>_force_eager_imports\<close> has
  run, whatever that call returned, and after any history of attribute reads.
\<close>

theorem C9_enumeration:
  assumes "load_module e ld tbl st0 = (Inr (), st)"
    and "\<not> eager_branch e"
    and "force_eager_imports ld st = (r, st')"
  shows "dir_hook st = Inr (all_literal tbl @ [''__all__'', ''__file__'', ''__path__'']) \<and>
         dir_hook st' = dir_hook st \<and>
         dir_hook (run_reads ld st names) = dir_hook st"
proof -
  have a: "attrs st ''__all__'' = Some (StrTuple (all_literal tbl))"
    using assms(1) by (rule load_module_all)
  then have "attrs st' ''__all__'' = Some (StrTuple (all_literal tbl))"
    using assms(3) force_eager_keeps by blast
  moreover have "attrs (run_reads ld st names) ''__all__'' = Some (StrTuple (all_literal tbl))"
    using a by (rule run_reads_keeps)
  ultimately show ?thesis
    using a by (simp add: dir_hook_def)
qed

theorem C9_enumeration_witness:
  "dir_hook example_loaded =
     Inr [''__version__'', ''_force_eager_imports'', ''Bar'', ''Baz'', ''Foo'',
          ''__all__'', ''__file__'', ''__path__''] \<and>
   dir_hook (snd (force_eager_imports example_loader example_loaded)) = dir_hook example_loaded \<and>
   dir_hook (run_reads example_loader example_loaded [''Bar'', ''Qux'']) = dir_hook example_loaded"
proof -
  have l: "load_module example_env example_loader example_table example_start =
      (Inr (), example_loaded)"
    using example_loaded_facts(1) by (simp add: example_loaded_def prod_eq_iff)
  have n: "\<not> eager_branch example_env"
    by (simp add: eager_branch_def example_env_def)
  have lit: "all_literal example_table =
      [''__version__'', ''_force_eager_imports'', ''Bar'', ''Baz'', ''Foo'']"
    by (simp add: all_literal_def example_table_def)
  have f: "force_eager_imports example_loader example_loaded =
      (fst (force_eager_imports example_loader example_loaded),
       snd (force_eager_imports example_loader example_loaded))"
    by simp
  show ?thesis
    using lit C9_enumeration [OF l n f, of "[''Bar'', ''Qux'']"] by simp
qed

subsection \<open>Resolution gives the value of the owning submodule\<close>

lemma load_module_lazy:
  assumes "load_module e ld tbl st0 = (Inr u, st)" and "\<not> eager_branch e"
  shows "attrs st ''_LAZY_IMPORT_TABLE'' = Some (Table (table_literal tbl)) \<and>
         attrs st ''__getattr__'' = Some (Function ''__getattr__'') \<and>
         attrs st ''__dir__'' = Some (Function ''__dir__'')"
  using assms
  by (auto simp: load_module_def Let_def bind_name_def split: prod.splits sum.splits)





text \<open>
  The submodule that the scan finds in the loaded table: for a table with distinct
  submodule names it is the first submodule of the generator's table that lists the
  symbol, and under the uniqueness invariant the only one.
\<close>

lemma update_fresh:
  "k \<notin> fst ` set al \<Longrightarrow> AList.update k v al = al @ [(k, v)]"
  by (induction al) auto

lemma fold_update_distinct:
  "distinct (map fst tbl) \<Longrightarrow> fst ` set acc \<inter> fst ` set tbl = {} \<Longrightarrow>
     fold (\<lambda>(modname, items). AList.update modname (remdups items)) tbl acc =
       acc @ map (\<lambda>(modname, items). (modname, remdups items)) tbl"
proof (induction tbl arbitrary: acc)
  case Nil
  then show ?case by simp
next
  case (Cons p tbl)
  obtain m items where p: "p = (m, items)" by (cases p)
  have fresh: "m \<notin> fst ` set acc"
    using Cons.prems(2) p by auto
  have "fst ` set (acc @ [(m, remdups items)]) \<inter> fst ` set tbl = {}"
    using Cons.prems p by auto
  then show ?case
    using Cons.IH [of "acc @ [(m, remdups items)]"] Cons.prems(1) p fresh
    by (simp add: update_fresh)
qed

lemma owner_remdups:
  "owner (map (\<lambda>(modname, items). (modname, remdups items)) tbl) s = owner tbl s"
  by (induction tbl) auto

lemma table_literal_owner:
  "distinct (map fst tbl) \<Longrightarrow> owner (table_literal tbl) s = owner tbl s"
  by (simp add: table_literal_def fold_update_distinct owner_remdups)

lemma owner_Some_listed:
  "owner tbl s = Some M \<Longrightarrow> \<exists>items. (M, items) \<in> set tbl \<and> s \<in> set items"
  by (induction tbl) (auto split: if_splits)

lemma owner_unique:
  "distinct (symbols tbl) \<Longrightarrow> (M, items) \<in> set tbl \<Longrightarrow> s \<in> set items \<Longrightarrow> owner tbl s = Some M"
proof (induction tbl)
  case Nil
  then show ?case by simp
next
  case (Cons p tbl)
  obtain m its where p: "p = (m, its)" by (cases p)
  show ?case
  proof (cases "s \<in> set its")
    case True
    have "(M, items) \<notin> set tbl"
    proof
      assume "(M, items) \<in> set tbl"
      then have "s \<in> set (symbols tbl)" using Cons.prems(3) by (force simp: symbols_def)
      then show False using Cons.prems(1) True p by (auto simp: symbols_def)
    qed
    then show ?thesis using Cons.prems(2) p True by auto
  next
    case False
    then have "(M, items) \<in> set tbl" using Cons.prems(2,3) p by auto
    moreover have "distinct (symbols tbl)" using Cons.prems(1) p by (simp add: symbols_def)
    ultimately show ?thesis using Cons.IH Cons.prems(3) False p by simp
  qed
qed

lemma source_table_well_formed:
  "distinct (map fst LAZY_IMPORT_TABLE) \<and> distinct (symbols LAZY_IMPORT_TABLE)"
  by code_simp




subsection \<open>The mode switch\<close>

lemma tuple_lt_3_7:
  "tuple_lt (major # minor # rest) [3, 7] \<longleftrightarrow> major < 3 \<or> (major = 3 \<and> minor < 7)"
  by (cases rest) auto

lemma from_import_attrs:
  "from_import ld st modname item = (r, st') \<Longrightarrow> k \<noteq> item \<Longrightarrow> attrs st' k = attrs st k"
  by (auto simp: from_import_def split: prod.splits sum.splits option.splits
      dest: import_module_attrs)

lemma from_import_bound:
  "from_import ld st modname item = (Inr u, st') \<Longrightarrow> attrs st' item \<noteq> None"
  by (auto simp: from_import_def split: prod.splits sum.splits option.splits)

lemma from_import_stays:
  "from_import ld st modname item = (r, st') \<Longrightarrow> attrs st k \<noteq> None \<Longrightarrow> attrs st' k \<noteq> None"
  by (auto simp: from_import_def split: prod.splits sum.splits option.splits
      dest: import_module_attrs)

lemma eager_imports_attrs:
  "eager_imports ld st pairs = (r, st') \<Longrightarrow> k \<notin> snd ` set pairs \<Longrightarrow> attrs st' k = attrs st k"
proof (induction pairs arbitrary: st)
  case Nil
  then show ?case by simp
next
  case (Cons p pairs)
  obtain modname item where p: "p = (modname, item)" by (cases p)
  obtain r1 st1 where step: "from_import ld st modname item = (r1, st1)"
    by (cases "from_import ld st modname item")
  have "attrs st1 k = attrs st k"
    using step Cons.prems(2) p by (auto dest: from_import_attrs)
  then show ?case
    using Cons.IH [of st1] Cons.prems p step by (cases r1) auto
qed

lemma eager_imports_stays:
  "eager_imports ld st pairs = (r, st') \<Longrightarrow> attrs st k \<noteq> None \<Longrightarrow> attrs st' k \<noteq> None"
proof (induction pairs arbitrary: st)
  case Nil
  then show ?case by simp
next
  case (Cons p pairs)
  obtain modname item where p: "p = (modname, item)" by (cases p)
  obtain r1 st1 where step: "from_import ld st modname item = (r1, st1)"
    by (cases "from_import ld st modname item")
  have "attrs st1 k \<noteq> None"
    using step Cons.prems(2) by (rule from_import_stays)
  then show ?case
    using Cons.IH [of st1] Cons.prems(1) p step by (cases r1) auto
qed

lemma eager_imports_bound:
  "eager_imports ld st pairs = (Inr u, st') \<Longrightarrow> k \<in> snd ` set pairs \<Longrightarrow> attrs st' k \<noteq> None"
proof (induction pairs arbitrary: st)
  case Nil
  then show ?case by simp
next
  case (Cons p pairs)
  obtain modname item where p: "p = (modname, item)" by (cases p)
  obtain r1 st1 where step: "from_import ld st modname item = (r1, st1)"
    by (cases "from_import ld st modname item")
  with Cons.prems(1) p obtain w where r1: "r1 = Inr w"
    and rest: "eager_imports ld st1 pairs = (Inr u, st')"
    by (cases r1) auto
  show ?case
  proof (cases "k = item")
    case True
    have "attrs st1 k \<noteq> None"
      using step r1 True by (auto dest: from_import_bound)
    then show ?thesis using rest by (auto dest: eager_imports_stays)
  next
    case False
    then have "k \<in> snd ` set pairs" using Cons.prems(2) p by auto
    then show ?thesis using Cons.IH [OF rest] by simp
  qed
qed

lemma import_pairs_symbols: "snd ` set (import_pairs tbl) = set (symbols tbl)"
  by (force simp: import_pairs_def symbols_def)

lemma switch_line_emitted:
  "''if typing.TYPE_CHECKING or sys.version_info < (3, 7):'' \<in> set (init_pieces tbl)"
  by (simp add: init_pieces_def)


lemma load_module_eager:
  assumes "load_module e ld tbl st0 = (Inr u, st)" and "eager_branch e"
  obtains w st2 w' st4 where
    "from_import ld
       (bind_name ''typing'' (Module ''typing'')
         (bind_name ''sys'' (Module ''sys'')
           (bind_name ''logging'' (Module ''logging'')
             (bind_name ''importlib'' (Module ''importlib'') st0))))
       ''version'' ''__version__'' = (Inr w, st2)"
    and "eager_imports ld
       (bind_name ''_LAZY_IMPORT_TABLE'' (Table (table_literal tbl))
         (bind_name ''_force_eager_imports'' (Function ''_force_eager_imports'') st2))
       (import_pairs tbl) = (Inr w', st4)"
    and "st = bind_name ''__all__'' (StrTuple (all_literal tbl)) st4"
  using assms
  by (auto simp: load_module_def Let_def split: prod.splits sum.splits)

text \<open>
  C10. The generator emits the switch \<open>if typing.TYPE_CHECKING or sys.version_info < (3, 7):\<close>.
  Its condition holds in the type-checking context and also whenever the version of the
  host is below 3.7. For a load that completes, on a module that had no hooks before and
  with a table that lists no symbol named as a hook: when the condition holds, the load
  binds every symbol of the table by the import list and installs neither hook;
  otherwise it installs \<open>__getattr__\<close> and \<open>__dir__\<close>.
\<close>

theorem C10_mode_switch:
  assumes ver: "version_info e = major # minor # rest"
    and load: "load_module e ld tbl st0 = (Inr (), st)"
    and fresh: "attrs st0 ''__getattr__'' = None" "attrs st0 ''__dir__'' = None"
    and names: "''__getattr__'' \<notin> set (symbols tbl)" "''__dir__'' \<notin> set (symbols tbl)"
  shows "''if typing.TYPE_CHECKING or sys.version_info < (3, 7):'' \<in> set (init_pieces tbl) \<and>
         (eager_branch e \<longleftrightarrow> TYPE_CHECKING e \<or> major < 3 \<or> (major = 3 \<and> minor < 7)) \<and>
         (eager_branch e \<longrightarrow>
            attrs st ''__getattr__'' = None \<and> attrs st ''__dir__'' = None \<and>
            (\<forall>s \<in> set (symbols tbl). attrs st s \<noteq> None)) \<and>
         (\<not> eager_branch e \<longrightarrow>
            attrs st ''__getattr__'' = Some (Function ''__getattr__'') \<and>
            attrs st ''__dir__'' = Some (Function ''__dir__''))"
proof -
  have switch: "eager_branch e \<longleftrightarrow> TYPE_CHECKING e \<or> major < 3 \<or> (major = 3 \<and> minor < 7)"
    unfolding eager_branch_def ver tuple_lt_3_7 by simp
  have eager: "attrs st ''__getattr__'' = None \<and> attrs st ''__dir__'' = None \<and>
      (\<forall>s \<in> set (symbols tbl). attrs st s \<noteq> None)" if "eager_branch e"
  proof -
    from load that obtain w st2 w' st4 where
      v: "from_import ld
         (bind_name ''typing'' (Module ''typing'')
           (bind_name ''sys'' (Module ''sys'')
             (bind_name ''logging'' (Module ''logging'')
               (bind_name ''importlib'' (Module ''importlib'') st0))))
         ''version'' ''__version__'' = (Inr w, st2)"
      and i: "eager_imports ld
         (bind_name ''_LAZY_IMPORT_TABLE'' (Table (table_literal tbl))
           (bind_name ''_force_eager_imports'' (Function ''_force_eager_imports'') st2))
         (import_pairs tbl) = (Inr w', st4)"
      and f: "st = bind_name ''__all__'' (StrTuple (all_literal tbl)) st4"
      by (rule load_module_eager)
    have g2: "attrs st2 ''__getattr__'' = None" and d2: "attrs st2 ''__dir__'' = None"
      using from_import_attrs [OF v, of "''__getattr__''"] from_import_attrs [OF v, of "''__dir__''"]
        fresh by (simp_all add: bind_name_def)
    have g4: "attrs st4 ''__getattr__'' = None"
      using eager_imports_attrs [OF i, of "''__getattr__''"] names(1) g2
      by (simp add: import_pairs_symbols bind_name_def)
    have d4: "attrs st4 ''__dir__'' = None"
      using eager_imports_attrs [OF i, of "''__dir__''"] names(2) d2
      by (simp add: import_pairs_symbols bind_name_def)
    have "attrs st4 s \<noteq> None" if "s \<in> set (symbols tbl)" for s
      using eager_imports_bound [OF i, of s] that by (simp add: import_pairs_symbols)
    then show ?thesis
      using g4 d4 f by (simp add: bind_name_def)
  qed
  have lazy: "attrs st ''__getattr__'' = Some (Function ''__getattr__'') \<and>
      attrs st ''__dir__'' = Some (Function ''__dir__'')" if "\<not> eager_branch e"
    using load_module_lazy [OF load that] by simp
  show ?thesis
    using switch_line_emitted switch eager lazy by blast
qed

theorem C10_mode_switch_witness:
  "eager_branch old_env \<and> \<not> eager_branch example_env \<and>
   attrs example_loaded ''__getattr__'' = Some (Function ''__getattr__'') \<and>
   attrs example_loaded ''__dir__'' = Some (Function ''__dir__'') \<and>
   attrs (snd (load_module old_env example_loader [(''mod_b'', [''Bar'', ''Baz''])] example_start))
     ''__getattr__'' = None \<and>
   attrs (snd (load_module old_env example_loader [(''mod_b'', [''Bar'', ''Baz''])] example_start))
     ''Baz'' \<noteq> None"
proof -
  have l: "load_module example_env example_loader example_table example_start =
      (Inr (), example_loaded)"
    using example_loaded_facts(1) by (simp add: example_loaded_def prod_eq_iff)
  have "fst (load_module old_env example_loader [(''mod_b'', [''Bar'', ''Baz''])] example_start) =
      Inr ()"
    by (simp add: load_module_def from_import_def import_module_def bind_name_def old_env_def
        example_loader_def example_start_def eager_branch_def table_literal_def import_pairs_def
        Let_def)
  then have l': "load_module old_env example_loader [(''mod_b'', [''Bar'', ''Baz''])] example_start =
      (Inr (), snd (load_module old_env example_loader [(''mod_b'', [''Bar'', ''Baz''])]
                      example_start))"
    by (simp add: prod_eq_iff)
  have f: "attrs example_start ''__getattr__'' = None" "attrs example_start ''__dir__'' = None"
    by (simp_all add: example_start_def)
  have v: "version_info example_env = 3 # 11 # [2]" "version_info old_env = 3 # 6 # [9]"
    by (simp_all add: example_env_def old_env_def)
  have s: "''__getattr__'' \<notin> set (symbols example_table)"
    "''__dir__'' \<notin> set (symbols example_table)"
    "''__getattr__'' \<notin> set (symbols [(''mod_b'', [''Bar'', ''Baz''])])"
    "''__dir__'' \<notin> set (symbols [(''mod_b'', [''Bar'', ''Baz''])])"
    by (simp_all add: symbols_def example_table_def)
  show ?thesis
    using C10_mode_switch [OF v(1) l f s(1,2)] C10_mode_switch [OF v(2) l' f s(3,4)]
    by (simp add: symbols_def example_env_def)
qed


end
